theory Spec2Isabelle
  imports Complex_Main "HOL-Library.AList" "HOL-Library.Sublist"
begin

section \<open>Python values\<close>

text \<open>
  The client handles JSON-shaped Python values only: what \<open>requests\<close> parses out of a
  response body and what the client puts into a request body. A Python \<open>dict\<close> with string
  keys is an association list in insertion order; \<open>d[k] = v\<close> is \<open>AList.update\<close>
  (replace in place, or append), \<open>del d[k]\<close> is \<open>AList.delete\<close>, \<open>d[k]\<close> is \<open>map_of\<close>.

  The code never computes with floats: it compares one with \<open>0\<close> and hands floats through.
  A finite double is a rational number, so \<open>Finite\<close> carries a \<open>rat\<close>; the values the
  Python JSON parser also accepts (\<open>Infinity\<close>, \<open>-Infinity\<close>, \<open>NaN\<close>) and the negative
  zero are constructors of their own.
\<close>

datatype pyfloat = Finite rat | NegZero | PosInf | NegInf | NaN

datatype pyval =
    PNone
  | PBool bool
  | PInt int
  | PFloat pyfloat
  | PStr string
  | PList "pyval list"
  | PDict "(string \<times> pyval) list"

type_synonym pydict = "(string \<times> pyval) list"

datatype py_exn =
    CaptchaException string
  | KeyError string
  | TypeError
  | TransportError string

text \<open>Sequencing of statements that may raise: the first exception wins.\<close>

fun pbind :: "py_exn + 'a \<Rightarrow> ('a \<Rightarrow> py_exn + 'b) \<Rightarrow> py_exn + 'b" where
  "pbind (Inl e) f = Inl e"
| "pbind (Inr x) f = f x"

text \<open>\<open>k in v\<close> for a string \<open>k\<close>: key membership on a dict, element membership on a list,
  substring test on a string, \<open>TypeError\<close> on everything else.\<close>

fun py_contains :: "pyval \<Rightarrow> string \<Rightarrow> py_exn + bool" where
  "py_contains (PDict d) k = Inr (k \<in> fst ` set d)"
| "py_contains (PList xs) k = Inr (PStr k \<in> set xs)"
| "py_contains (PStr s) k = Inr (sublist k s)"
| "py_contains v k = Inl TypeError"

text \<open>\<open>v[k]\<close> for a string \<open>k\<close>: \<open>KeyError\<close> on a dict without the key, \<open>TypeError\<close> on
  every value that is not a dict (lists and strings take integer indices only).\<close>

fun py_getitem :: "pyval \<Rightarrow> string \<Rightarrow> py_exn + pyval" where
  "py_getitem (PDict d) k = (case map_of d k of None \<Rightarrow> Inl (KeyError k) | Some v \<Rightarrow> Inr v)"
| "py_getitem v k = Inl TypeError"

text \<open>\<open>v[k] = x\<close> for a string \<open>k\<close>; the updated object is returned.\<close>

fun py_setitem :: "pyval \<Rightarrow> string \<Rightarrow> pyval \<Rightarrow> py_exn + pyval" where
  "py_setitem (PDict d) k x = Inr (PDict (AList.update k x d))"
| "py_setitem v k x = Inl TypeError"

text \<open>\<open>del v[k]\<close> for a string \<open>k\<close>; the updated object is returned.\<close>

fun py_delitem :: "pyval \<Rightarrow> string \<Rightarrow> py_exn + pyval" where
  "py_delitem (PDict d) k =
     (if k \<in> fst ` set d then Inr (PDict (AList.delete k d)) else Inl (KeyError k))"
| "py_delitem v k = Inl TypeError"

text \<open>\<open>v > 0\<close>: defined on numbers (\<open>bool\<close> is a subclass of \<open>int\<close>), \<open>TypeError\<close> on
  \<open>None\<close>, strings, lists and dicts.\<close>

fun py_gt_zero :: "pyval \<Rightarrow> py_exn + bool" where
  "py_gt_zero (PInt n) = Inr (n > 0)"
| "py_gt_zero (PBool b) = Inr b"
| "py_gt_zero (PFloat (Finite q)) = Inr (q > 0)"
| "py_gt_zero (PFloat PosInf) = Inr True"
| "py_gt_zero (PFloat f) = Inr False"
| "py_gt_zero v = Inl TypeError"

text \<open>\<open>d.update(e)\<close>: the entries of \<open>e\<close> are stored into \<open>d\<close> in order.\<close>

definition dict_update :: "pydict \<Rightarrow> pydict \<Rightarrow> pydict" where
  "dict_update d e = fold (\<lambda>kv acc. AList.update (fst kv) (snd kv) acc) e d"

subsection \<open>Text of a value\<close>

fun digit_char :: "nat \<Rightarrow> char" where
  "digit_char n = char_of (48 + n)"

fun str_nat :: "nat \<Rightarrow> string" where
  "str_nat n = (if n < 10 then [digit_char n] else str_nat (n div 10) @ [digit_char (n mod 10)])"

definition str_int :: "int \<Rightarrow> string" where
  "str_int i = (if i < 0 then CHR ''-'' # str_nat (nat (- i)) else str_nat (nat i))"

text \<open>\<open>str(v)\<close>, which is what a \<open>{}\<close> field of \<open>str.format\<close> inserts. For floats, lists and
  dicts it is CPython's \<open>repr\<close>, taken as the parameter \<open>rp\<close>.\<close>

fun py_str :: "(pyval \<Rightarrow> string) \<Rightarrow> pyval \<Rightarrow> string" where
  "py_str rp PNone = ''None''"
| "py_str rp (PBool b) = (if b then ''True'' else ''False'')"
| "py_str rp (PInt i) = str_int i"
| "py_str rp (PStr s) = s"
| "py_str rp v = rp v"

section \<open>The outside world\<close>

text \<open>
  The libraries the client consumes are parameters: \<open>requests_get u\<close> is
  \<open>requests.get(u).content\<close>, \<open>b64encode c\<close> is \<open>base64.b64encode(c).decode()\<close>,
  \<open>requests_post u d\<close> is \<open>requests.post(u, json=d).json()\<close> (the parsed body, or the
  exception the transport or the JSON parser raised), \<open>repr\<close> is CPython's \<open>repr\<close>.
  Every call that goes to the network is appended to a log, so that what an operation
  sends is part of its result.
\<close>

record pyenv =
  requests_get :: "string \<Rightarrow> py_exn + string"
  b64encode :: "string \<Rightarrow> string"
  requests_post :: "string \<Rightarrow> pyval \<Rightarrow> py_exn + pyval"
  repr :: "pyval \<Rightarrow> string"

datatype net_call = Get string | Post string pyval

definition HOST_ADDRESS :: "string \<Rightarrow> string" where
  "HOST_ADDRESS m = ''https://api.anti-captcha.com/'' @ m"

section \<open>Enumerations\<close>

text \<open>\<open>Queue.STANDARD_RUS\<close> has the value of \<open>STANDARD_ENG\<close>, so Python makes it an alias
  of that member.\<close>

datatype Queue = STANDARD_ENG | RECAPTCHA | RECAPTCHA_PROXYLESS | FUNCAPTCHA | FUNCAPTCHA_PROXYLESS

abbreviation STANDARD_RUS :: Queue where
  "STANDARD_RUS \<equiv> STANDARD_ENG"

fun Queue_value :: "Queue \<Rightarrow> int" where
  "Queue_value STANDARD_ENG = 1"
| "Queue_value RECAPTCHA = 5"
| "Queue_value RECAPTCHA_PROXYLESS = 6"
| "Queue_value FUNCAPTCHA = 7"
| "Queue_value FUNCAPTCHA_PROXYLESS = 8"

datatype Numeric = NO_REQUIREMENTS | ONLY_NUMBERS | ONLY_LETTERS

fun Numeric_value :: "Numeric \<Rightarrow> int" where
  "Numeric_value NO_REQUIREMENTS = 0"
| "Numeric_value ONLY_NUMBERS = 1"
| "Numeric_value ONLY_LETTERS = 2"

datatype LanguagePool = ENGLISH | RUSSIAN

fun LanguagePool_value :: "LanguagePool \<Rightarrow> string" where
  "LanguagePool_value ENGLISH = ''en''"
| "LanguagePool_value RUSSIAN = ''rn''"

section \<open>Tasks\<close>

record Task =
  data :: pydict

definition Task_init :: "string \<Rightarrow> Task" where
  "Task_init task_type = \<lparr>data = [(''type'', PStr task_type)]\<rparr>"

definition base64_encode :: "pyenv \<Rightarrow> string \<Rightarrow> net_call list \<Rightarrow> (py_exn + string) \<times> net_call list" where
  "base64_encode env url w =
     (pbind (requests_get env url) (\<lambda>content. Inr (b64encode env content)), w @ [Get url])"

text \<open>The loop of \<open>build\<close> over \<open>self.data.items()\<close>, with the dict being filled as
  accumulator.\<close>

fun build_loop :: "pydict \<Rightarrow> pydict \<Rightarrow> pydict" where
  "build_loop [] acc = acc"
| "build_loop ((k, v) # kvs) acc =
     build_loop kvs (if v \<noteq> PNone then AList.update k v acc else acc)"

definition build :: "Task \<Rightarrow> pydict" where
  "build t = build_loop (data t) []"

text \<open>
  An argument with default \<open>None\<close> is an \<open>option\<close>. \<open>numeric.value if numeric else None\<close>
  tests the truth value of \<open>numeric\<close>: \<open>None\<close> is false, and every member of a plain
  \<open>Enum\<close> is true whatever its value, \<open>NO_REQUIREMENTS\<close> included.
\<close>

definition opt_val :: "('a \<Rightarrow> pyval) \<Rightarrow> 'a option \<Rightarrow> pyval" where
  "opt_val f x = (case x of None \<Rightarrow> PNone | Some a \<Rightarrow> f a)"

definition ImageToTextTask ::
  "pyenv \<Rightarrow> string \<Rightarrow> bool option \<Rightarrow> bool option \<Rightarrow> Numeric option \<Rightarrow> bool option \<Rightarrow>
   int option \<Rightarrow> int option \<Rightarrow> net_call list \<Rightarrow> (py_exn + Task) \<times> net_call list" where
  "ImageToTextTask env image_url phrase case' numeric math min_length max_length w =
     (let self = Task_init ''ImageToTextTask'';
          (body, w') = base64_encode env image_url w
      in (pbind body (\<lambda>b. Inr (self\<lparr>data := dict_update (data self)
            [(''body'', PStr b),
             (''phrase'', opt_val PBool phrase),
             (''case'', opt_val PBool case'),
             (''numeric'', (case numeric of Some n \<Rightarrow> PInt (Numeric_value n) | None \<Rightarrow> PNone)),
             (''math'', opt_val PBool math),
             (''minLength'', opt_val PInt min_length),
             (''maxLength'', opt_val PInt max_length)]\<rparr>)), w'))"

section \<open>The service client\<close>

record AntiCaptchaService =
  client_key :: string
  soft_id :: "int option"

definition AntiCaptchaService_init :: "string \<Rightarrow> int option \<Rightarrow> AntiCaptchaService" where
  "AntiCaptchaService_init ck sid = \<lparr>client_key = ck, soft_id = sid\<rparr>"

text \<open>The state a method runs in: the instance \<open>self\<close> and the log of network calls.\<close>

record state =
  self :: AntiCaptchaService
  sent :: "net_call list"

type_synonym result = "py_exn + pyval"

text \<open>\<open>__request\<close> is a static method: it sees the network, not the instance.\<close>

definition request :: "pyenv \<Rightarrow> string \<Rightarrow> pyval \<Rightarrow> net_call list \<Rightarrow> result \<times> net_call list" where
  "request env method d w =
     (pbind (requests_post env (HOST_ADDRESS method) d) (\<lambda>response.
        pbind (py_contains response ''errorId'') (\<lambda>has_error_id.
          if has_error_id then
            pbind (py_getitem response ''errorId'') (\<lambda>error_id.
            pbind (py_gt_zero error_id) (\<lambda>positive.
              if positive then
                pbind (py_getitem response ''errorId'') (\<lambda>a.
                pbind (py_getitem response ''errorCode'') (\<lambda>b.
                pbind (py_getitem response ''errorDescription'') (\<lambda>c.
                  Inl (CaptchaException
                    (py_str (repr env) a @ '' ('' @ py_str (repr env) b @ ''): ''
                       @ py_str (repr env) c)))))
              else py_delitem response ''errorId''))
          else Inr response)),
      w @ [Post (HOST_ADDRESS method) d])"

definition get_balance :: "pyenv \<Rightarrow> state \<Rightarrow> result \<times> state" where
  "get_balance env st =
     (let d = PDict [(''clientKey'', PStr (client_key (self st)))];
          (response, w') = request env ''getBalance'' d (sent st)
      in (pbind response (\<lambda>r. py_getitem r ''balance''), st\<lparr>sent := w'\<rparr>))"

definition get_queue_stats :: "pyenv \<Rightarrow> Queue \<Rightarrow> state \<Rightarrow> result \<times> state" where
  "get_queue_stats env queue_id st =
     (let d = PDict [(''clientKey'', PStr (client_key (self st))),
                     (''queueId'', PInt (Queue_value queue_id))];
          (response, w') = request env ''getQueueStats'' d (sent st)
      in (response, st\<lparr>sent := w'\<rparr>))"

text \<open>\<open>lang_pool\<close> left out by the caller is \<open>None\<close> here and stands for the default
  \<open>LanguagePool.ENGLISH\<close> of the signature.\<close>

definition create_task ::
  "pyenv \<Rightarrow> Task \<Rightarrow> LanguagePool option \<Rightarrow> string option \<Rightarrow> state \<Rightarrow> result \<times> state" where
  "create_task env task lang_pool callback_url st =
     (let lp = (case lang_pool of None \<Rightarrow> ENGLISH | Some l \<Rightarrow> l);
          d0 = [(''clientKey'', PStr (client_key (self st))),
                (''languagePool'', PStr (LanguagePool_value lp)),
                (''task'', PDict (build task))];
          d1 = (case callback_url of None \<Rightarrow> d0
                | Some u \<Rightarrow> AList.update ''callbackUrl'' (PStr u) d0);
          d2 = (case soft_id (self st) of None \<Rightarrow> d1
                | Some i \<Rightarrow> AList.update ''softId'' (PInt i) d1);
          (response, w') = request env ''createTask'' (PDict d2) (sent st)
      in (pbind response (\<lambda>r. py_getitem r ''taskId''), st\<lparr>sent := w'\<rparr>))"

definition get_task_result :: "pyenv \<Rightarrow> int \<Rightarrow> state \<Rightarrow> result \<times> state" where
  "get_task_result env task_id st =
     (let d = PDict [(''clientKey'', PStr (client_key (self st))), (''taskId'', PInt task_id)];
          (response, w') = request env ''getTaskResult'' d (sent st)
      in (pbind response (\<lambda>r.
            pbind (py_getitem r ''status'') (\<lambda>s.
              py_setitem r ''status'' (PBool (s = PStr ''ready'')))),
          st\<lparr>sent := w'\<rparr>))"

definition report :: "pyenv \<Rightarrow> int \<Rightarrow> state \<Rightarrow> result \<times> state" where
  "report env task_id st =
     (let d = PDict [(''clientKey'', PStr (client_key (self st))), (''taskId'', PInt task_id)];
          (response, w') = request env ''reportIncorrectImageCaptcha'' d (sent st)
      in (pbind response (\<lambda>r.
            pbind (py_getitem r ''status'') (\<lambda>s. Inr (PBool (s = PStr ''success'')))),
          st\<lparr>sent := w'\<rparr>))"

text \<open>One value for each way of calling the client, to speak about every operation at
  once.\<close>

datatype call =
    GetBalance
  | GetQueueStats Queue
  | CreateTask Task "LanguagePool option" "string option"
  | GetTaskResult int
  | Report int

fun perform :: "pyenv \<Rightarrow> call \<Rightarrow> state \<Rightarrow> result \<times> state" where
  "perform env GetBalance st = get_balance env st"
| "perform env (GetQueueStats q) st = get_queue_stats env q st"
| "perform env (CreateTask t lp cb) st = create_task env t lp cb st"
| "perform env (GetTaskResult i) st = get_task_result env i st"
| "perform env (Report i) st = report env i st"

section \<open>Fixtures\<close>

text \<open>A world whose server answers every request with the mapping \<open>r\<close> and whose image
  download succeeds, and a client without application identifier that has sent nothing.\<close>

definition example_env :: "pydict \<Rightarrow> pyenv" where
  "example_env r =
     \<lparr>requests_get = (\<lambda>u. Inr ''GIF89a''), b64encode = (\<lambda>c. ''R0lGODlh''),
      requests_post = (\<lambda>u d. Inr (PDict r)), repr = (\<lambda>v. ''?'')\<rparr>"

definition example_state :: state where
  "example_state = \<lparr>self = AntiCaptchaService_init ''key'' None, sent = []\<rparr>"

section \<open>Building a task payload\<close>

lemma set_update_subset: "set (AList.update k v al) \<subseteq> insert (k, v) (set al)"
  by (induction al) auto

lemma build_loop_no_None:
  "\<forall>kv \<in> set acc. snd kv \<noteq> PNone \<Longrightarrow> \<forall>kv \<in> set (build_loop xs acc). snd kv \<noteq> PNone"
proof (induction xs acc rule: build_loop.induct)
  case (1 acc)
  then show ?case by simp
next
  case (2 k v kvs acc)
  have "\<forall>kv \<in> set (if v \<noteq> PNone then AList.update k v acc else acc). snd kv \<noteq> PNone"
    using "2.prems" set_update_subset [of k v acc] by auto
  then show ?case using "2.IH" by simp
qed

lemma build_loop_subset: "set (build_loop xs acc) \<subseteq> set xs \<union> set acc"
proof (induction xs acc rule: build_loop.induct)
  case (1 acc)
  then show ?case by simp
next
  case (2 k v kvs acc)
  then show ?case using set_update_subset [of k v acc] by (auto split: if_splits)
qed

lemma update_fresh: "k \<notin> fst ` set al \<Longrightarrow> AList.update k v al = al @ [(k, v)]"
  by (induction al) auto

lemma build_loop_distinct:
  "distinct (map fst xs) \<Longrightarrow> fst ` set xs \<inter> fst ` set acc = {} \<Longrightarrow>
   build_loop xs acc = acc @ filter (\<lambda>kv. snd kv \<noteq> PNone) xs"
proof (induction xs acc rule: build_loop.induct)
  case (1 acc)
  then show ?case by simp
next
  case (2 k v kvs acc)
  have fresh: "k \<notin> fst ` set acc" using "2.prems"(2) by auto
  show ?case
  proof (cases "v = PNone")
    case True
    then show ?thesis using 2 by auto
  next
    case False
    have "fst ` set kvs \<inter> fst ` set (acc @ [(k, v)]) = {}"
      using "2.prems" by (auto simp: image_iff)
    then show ?thesis using 2 False fresh by (simp add: update_fresh)
  qed
qed

lemma build_filter: "distinct (map fst (data t)) \<Longrightarrow> build t = filter (\<lambda>kv. snd kv \<noteq> PNone) (data t)"
  by (simp add: build_def build_loop_distinct)

lemma opt_val_None [simp]: "opt_val PBool x = PNone \<longleftrightarrow> x = None" "opt_val PInt y = PNone \<longleftrightarrow> y = None"
  by (auto simp: opt_val_def split: option.splits)

lemma ImageToTextTask_data:
  assumes "fst (ImageToTextTask env url ph cs nu ma mn mx w) = Inr t"
  shows "\<exists>c. requests_get env url = Inr c \<and> data t =
     [(''type'', PStr ''ImageToTextTask''), (''body'', PStr (b64encode env c)),
      (''phrase'', opt_val PBool ph), (''case'', opt_val PBool cs),
      (''numeric'', (case nu of Some n \<Rightarrow> PInt (Numeric_value n) | None \<Rightarrow> PNone)),
      (''math'', opt_val PBool ma), (''minLength'', opt_val PInt mn),
      (''maxLength'', opt_val PInt mx)]"
proof (cases "requests_get env url")
  case (Inl e)
  then show ?thesis using assms by (simp add: ImageToTextTask_def base64_encode_def)
next
  case (Inr c)
  then show ?thesis using assms
    by (auto simp: ImageToTextTask_def base64_encode_def Task_init_def dict_update_def)
qed

lemma ImageToTextTask_build:
  assumes "fst (ImageToTextTask env url ph cs nu ma mn mx w) = Inr t"
  shows "\<exists>c. requests_get env url = Inr c \<and> build t = filter (\<lambda>kv. snd kv \<noteq> PNone)
     [(''type'', PStr ''ImageToTextTask''), (''body'', PStr (b64encode env c)),
      (''phrase'', opt_val PBool ph), (''case'', opt_val PBool cs),
      (''numeric'', (case nu of Some n \<Rightarrow> PInt (Numeric_value n) | None \<Rightarrow> PNone)),
      (''math'', opt_val PBool ma), (''minLength'', opt_val PInt mn),
      (''maxLength'', opt_val PInt mx)]"
proof -
  from ImageToTextTask_data [OF assms] obtain c where c: "requests_get env url = Inr c"
    and d: "data t =
     [(''type'', PStr ''ImageToTextTask''), (''body'', PStr (b64encode env c)),
      (''phrase'', opt_val PBool ph), (''case'', opt_val PBool cs),
      (''numeric'', (case nu of Some n \<Rightarrow> PInt (Numeric_value n) | None \<Rightarrow> PNone)),
      (''math'', opt_val PBool ma), (''minLength'', opt_val PInt mn),
      (''maxLength'', opt_val PInt mx)]" by blast
  have "distinct (map fst (data t))" by (simp add: d)
  from build_filter [OF this] show ?thesis using c d by simp
qed

lemma ImageToTextTask_lookup:
  assumes "fst (ImageToTextTask env url ph cs nu ma mn mx w) = Inr t"
  shows "map_of (build t) ''type'' = Some (PStr ''ImageToTextTask'')"
    and "\<exists>b. map_of (build t) ''body'' = Some (PStr b)"
    and "map_of (build t) ''phrase'' = map_option PBool ph"
    and "map_of (build t) ''case'' = map_option PBool cs"
    and "map_of (build t) ''numeric'' = map_option (\<lambda>n. PInt (Numeric_value n)) nu"
    and "map_of (build t) ''math'' = map_option PBool ma"
    and "map_of (build t) ''minLength'' = map_option PInt mn"
    and "map_of (build t) ''maxLength'' = map_option PInt mx"
    and "fst ` set (build t) \<subseteq> {''type'', ''body'', ''phrase'', ''case'', ''numeric'', ''math'',
           ''minLength'', ''maxLength''}"
proof -
  from ImageToTextTask_build [OF assms] obtain c where
    b: "build t = filter (\<lambda>kv. snd kv \<noteq> PNone)
     [(''type'', PStr ''ImageToTextTask''), (''body'', PStr (b64encode env c)),
      (''phrase'', opt_val PBool ph), (''case'', opt_val PBool cs),
      (''numeric'', (case nu of Some n \<Rightarrow> PInt (Numeric_value n) | None \<Rightarrow> PNone)),
      (''math'', opt_val PBool ma), (''minLength'', opt_val PInt mn),
      (''maxLength'', opt_val PInt mx)]" by blast
  show "map_of (build t) ''type'' = Some (PStr ''ImageToTextTask'')" by (simp add: b)
  show "\<exists>b. map_of (build t) ''body'' = Some (PStr b)" by (simp add: b)
  show "map_of (build t) ''phrase'' = map_option PBool ph"
    by (cases ph) (simp_all add: b opt_val_def)
  show "map_of (build t) ''case'' = map_option PBool cs"
    by (cases cs) (simp_all add: b opt_val_def)
  show "map_of (build t) ''numeric'' = map_option (\<lambda>n. PInt (Numeric_value n)) nu"
    by (cases nu) (simp_all add: b)
  show "map_of (build t) ''math'' = map_option PBool ma"
    by (cases ma) (simp_all add: b opt_val_def)
  show "map_of (build t) ''minLength'' = map_option PInt mn"
    by (cases mn) (simp_all add: b opt_val_def)
  show "map_of (build t) ''maxLength'' = map_option PInt mx"
    by (cases mx) (simp_all add: b opt_val_def)
  show "fst ` set (build t) \<subseteq> {''type'', ''body'', ''phrase'', ''case'', ''numeric'', ''math'',
           ''minLength'', ''maxLength''}"
  proof -
    from ImageToTextTask_data [OF assms] obtain c' where "fst ` set (data t) =
       {''type'', ''body'', ''phrase'', ''case'', ''numeric'', ''math'', ''minLength'', ''maxLength''}"
      by auto
    then show ?thesis using build_loop_subset [of "data t" "[]"] by (auto simp: build_def)
  qed
qed

lemma key_iff_lookup: "k \<in> fst ` set al \<longleftrightarrow> map_of al k \<noteq> None"
  by (simp add: map_of_eq_None_iff)

section \<open>The error protocol of a request\<close>

lemma map_of_Some_key: "map_of al k = Some v \<Longrightarrow> k \<in> fst ` set al"
  by (metis domI dom_map_of_conv_image_fst)

lemma request_snd: "snd (request env m d w) = w @ [Post (HOST_ADDRESS m) d]"
  by (simp add: request_def)

lemma request_absent:
  assumes "requests_post env (HOST_ADDRESS m) d = Inr (PDict r)" "''errorId'' \<notin> fst ` set r"
  shows "fst (request env m d w) = Inr (PDict r)"
  using assms by (simp add: request_def)

lemma request_nonpositive:
  assumes "requests_post env (HOST_ADDRESS m) d = Inr (PDict r)"
    and "map_of r ''errorId'' = Some e" "py_gt_zero e = Inr False"
  shows "fst (request env m d w) = Inr (PDict (AList.delete ''errorId'' r))"
  using assms map_of_Some_key [OF assms(2)] by (simp add: request_def)

lemma request_positive:
  assumes "requests_post env (HOST_ADDRESS m) d = Inr (PDict r)"
    and "map_of r ''errorId'' = Some e" "py_gt_zero e = Inr True"
    and "map_of r ''errorCode'' = Some c" "map_of r ''errorDescription'' = Some ds"
  shows "fst (request env m d w) = Inl (CaptchaException
           (py_str (repr env) e @ '' ('' @ py_str (repr env) c @ ''): '' @ py_str (repr env) ds))"
  using assms map_of_Some_key [OF assms(2)] by (simp add: request_def)

lemma gt_zero_not_Captcha: "py_gt_zero e \<noteq> Inl (CaptchaException msg)"
  by (induction e rule: py_gt_zero.induct) simp_all

lemma delitem_not_Captcha: "py_delitem r k \<noteq> Inl (CaptchaException msg)"
  by (cases r) simp_all

text \<open>The only way to a \<open>CaptchaException\<close> is an \<open>errorId\<close> greater than zero.\<close>

lemma request_CaptchaException:
  assumes "fst (request env m d w) = Inl (CaptchaException msg)"
    and "requests_post env (HOST_ADDRESS m) d = Inr (PDict r)"
  shows "\<exists>e. map_of r ''errorId'' = Some e \<and> py_gt_zero e = Inr True"
proof (cases "map_of r ''errorId''")
  case None
  then have "''errorId'' \<notin> fst ` set r" by (simp add: map_of_eq_None_iff)
  then show ?thesis using assms by (simp add: request_def)
next
  case (Some e)
  show ?thesis
  proof (cases "py_gt_zero e")
    case (Inl x)
    then show ?thesis using assms Some map_of_Some_key [OF Some] gt_zero_not_Captcha [of e msg]
      by (simp add: request_def)
  next
    case (Inr b)
    then show ?thesis using assms Some map_of_Some_key [OF Some]
      by (cases b) (simp_all add: request_def delitem_not_Captcha)
  qed
qed

lemma getitem_not_Captcha: "py_getitem r k \<noteq> Inl (CaptchaException msg)"
  by (cases r) (simp_all split: option.splits)

lemma setitem_not_Captcha: "py_setitem r k x \<noteq> Inl (CaptchaException msg)"
  by (cases r) simp_all

lemma perform_shape:
  "\<exists>m d k. (\<forall>env. perform env c st =
       (pbind (fst (request env m d (sent st))) k,
        st\<lparr>sent := sent st @ [Post (HOST_ADDRESS m) d]\<rparr>))
     \<and> (\<forall>r msg. k r \<noteq> Inl (CaptchaException msg))"
proof (cases c)
  case GetBalance
  show ?thesis
    apply (rule exI [of _ "''getBalance''"])
    apply (rule exI [of _ "PDict [(''clientKey'', PStr (client_key (self st)))]"])
    apply (rule exI [of _ "\<lambda>r. py_getitem r ''balance''"])
    by (simp add: GetBalance get_balance_def split_beta Let_def request_snd getitem_not_Captcha)
next
  case (GetQueueStats q)
  show ?thesis
    apply (rule exI [of _ "''getQueueStats''"])
    apply (rule exI [of _ "PDict [(''clientKey'', PStr (client_key (self st))),
                     (''queueId'', PInt (Queue_value q))]"])
    apply (rule exI [of _ "Inr"])
    apply (simp add: GetQueueStats get_queue_stats_def split_beta Let_def request_snd)
    apply (intro allI)
    subgoal for env by (cases "fst (request env ''getQueueStats'' (PDict [(''clientKey'', PStr (client_key (self st))),
                     (''queueId'', PInt (Queue_value q))]) (sent st))") simp_all
    done
next
  case (CreateTask t lp cb)
  show ?thesis
    apply (rule exI [of _ "''createTask''"])
    apply (rule exI [of _ "PDict (let lp' = (case lp of None \<Rightarrow> ENGLISH | Some l \<Rightarrow> l);
          d0 = [(''clientKey'', PStr (client_key (self st))),
                (''languagePool'', PStr (LanguagePool_value lp')),
                (''task'', PDict (build t))];
          d1 = (case cb of None \<Rightarrow> d0
                | Some u \<Rightarrow> AList.update ''callbackUrl'' (PStr u) d0) in
           (case soft_id (self st) of None \<Rightarrow> d1
                | Some i \<Rightarrow> AList.update ''softId'' (PInt i) d1))"])
    apply (rule exI [of _ "\<lambda>r. py_getitem r ''taskId''"])
    by (simp add: CreateTask create_task_def split_beta Let_def request_snd getitem_not_Captcha)
next
  case (GetTaskResult i)
  have k: "\<And>r msg. pbind (py_getitem r ''status'') (\<lambda>s. py_setitem r ''status'' (PBool (s = PStr ''ready''))) \<noteq> Inl (CaptchaException msg)"
    subgoal for r msg
      using getitem_not_Captcha [of r "''status''" msg]
      by (cases "py_getitem r ''status''") (auto simp: setitem_not_Captcha)
    done
  show ?thesis
    apply (rule exI [of _ "''getTaskResult''"])
    apply (rule exI [of _ "PDict [(''clientKey'', PStr (client_key (self st))), (''taskId'', PInt i)]"])
    apply (rule exI [of _ "\<lambda>r. pbind (py_getitem r ''status'') (\<lambda>s. py_setitem r ''status'' (PBool (s = PStr ''ready'')))"])
    using k by (simp add: GetTaskResult get_task_result_def split_beta Let_def request_snd)
next
  case (Report i)
  have k: "\<And>r msg. pbind (py_getitem r ''status'') (\<lambda>s. Inr (PBool (s = PStr ''success''))) \<noteq> Inl (CaptchaException msg)"
    subgoal for r msg
      using getitem_not_Captcha [of r "''status''" msg]
      by (cases "py_getitem r ''status''") auto
    done
  show ?thesis
    apply (rule exI [of _ "''reportIncorrectImageCaptcha''"])
    apply (rule exI [of _ "PDict [(''clientKey'', PStr (client_key (self st))), (''taskId'', PInt i)]"])
    apply (rule exI [of _ "\<lambda>r. pbind (py_getitem r ''status'') (\<lambda>s. Inr (PBool (s = PStr ''success'')))"])
    using k by (simp add: Report report_def split_beta Let_def request_snd)
qed

section \<open>Properties of the task payload\<close>

text \<open>
  Claim C1. The mapping returned by \<open>build\<close> holds only what the caller supplied: no
  entry of it has the value \<open>None\<close>, every entry of it is an entry of the task's data, and
  when the keys of the data are distinct (as in every dict) it is the data without the
  entries whose value is \<open>None\<close>. For a plain \<open>Task\<close> that is the type alone; for an
  \<open>ImageToTextTask\<close> each optional field is a key of the output exactly when the caller
  gave it, and no other key than the type, the body and the six optional fields occurs.
\<close>

theorem build_only_supplied:
  "(\<forall>k v. (k, v) \<in> set (build t) \<longrightarrow> v \<noteq> PNone \<and> (k, v) \<in> set (data t))
   \<and> (distinct (map fst (data t)) \<longrightarrow> build t = filter (\<lambda>kv. snd kv \<noteq> PNone) (data t))
   \<and> build (Task_init task_type) = [(''type'', PStr task_type)]
   \<and> (fst (ImageToTextTask env url ph cs nu ma mn mx w) = Inr t \<longrightarrow>
        (''phrase'' \<in> fst ` set (build t) \<longleftrightarrow> ph \<noteq> None)
      \<and> (''case'' \<in> fst ` set (build t) \<longleftrightarrow> cs \<noteq> None)
      \<and> (''numeric'' \<in> fst ` set (build t) \<longleftrightarrow> nu \<noteq> None)
      \<and> (''math'' \<in> fst ` set (build t) \<longleftrightarrow> ma \<noteq> None)
      \<and> (''minLength'' \<in> fst ` set (build t) \<longleftrightarrow> mn \<noteq> None)
      \<and> (''maxLength'' \<in> fst ` set (build t) \<longleftrightarrow> mx \<noteq> None)
      \<and> fst ` set (build t) \<subseteq> {''type'', ''body'', ''phrase'', ''case'', ''numeric'', ''math'',
            ''minLength'', ''maxLength''})"
proof (intro conjI impI allI)
  fix k v assume kv: "(k, v) \<in> set (build t)"
  from build_loop_no_None [of "[]" "data t"] kv show "v \<noteq> PNone"
    by (auto simp: build_def)
  from build_loop_subset [of "data t" "[]"] kv show "(k, v) \<in> set (data t)"
    by (auto simp: build_def)
next
  assume "distinct (map fst (data t))"
  then show "build t = filter (\<lambda>kv. snd kv \<noteq> PNone) (data t)" by (rule build_filter)
next
  show "build (Task_init task_type) = [(''type'', PStr task_type)]"
    by (simp add: build_def Task_init_def)
next
  assume a: "fst (ImageToTextTask env url ph cs nu ma mn mx w) = Inr t"
  note l = ImageToTextTask_lookup [OF a]
  show "''phrase'' \<in> fst ` set (build t) \<longleftrightarrow> ph \<noteq> None"
    by (simp only: key_iff_lookup l) simp
  show "''case'' \<in> fst ` set (build t) \<longleftrightarrow> cs \<noteq> None"
    by (simp only: key_iff_lookup l) simp
  show "''numeric'' \<in> fst ` set (build t) \<longleftrightarrow> nu \<noteq> None"
    by (simp only: key_iff_lookup l) simp
  show "''math'' \<in> fst ` set (build t) \<longleftrightarrow> ma \<noteq> None"
    by (simp only: key_iff_lookup l) simp
  show "''minLength'' \<in> fst ` set (build t) \<longleftrightarrow> mn \<noteq> None"
    by (simp only: key_iff_lookup l) simp
  show "''maxLength'' \<in> fst ` set (build t) \<longleftrightarrow> mx \<noteq> None"
    by (simp only: key_iff_lookup l) simp
  show "fst ` set (build t) \<subseteq> {''type'', ''body'', ''phrase'', ''case'', ''numeric'', ''math'',
            ''minLength'', ''maxLength''}"
    by (rule l)
qed

lemma example_task:
  "fst (ImageToTextTask (example_env r) ''http://host/captcha.gif'' (Some True) None None None None None [])
     = Inr \<lparr>data = [(''type'', PStr ''ImageToTextTask''), (''body'', PStr ''R0lGODlh''),
          (''phrase'', PBool True), (''case'', PNone), (''numeric'', PNone), (''math'', PNone),
          (''minLength'', PNone), (''maxLength'', PNone)]\<rparr>"
  by (simp add: ImageToTextTask_def example_env_def base64_encode_def Task_init_def
      dict_update_def opt_val_def)

text \<open>The scenario of an image task with only \<open>phrase=True\<close> given: the payload is
  exactly the type, the body and the phrase.\<close>

theorem build_only_supplied_witness:
  "fst (ImageToTextTask (example_env []) ''http://host/captcha.gif'' (Some True) None None None None None [])
     = Inr \<lparr>data = [(''type'', PStr ''ImageToTextTask''), (''body'', PStr ''R0lGODlh''),
          (''phrase'', PBool True), (''case'', PNone), (''numeric'', PNone), (''math'', PNone),
          (''minLength'', PNone), (''maxLength'', PNone)]\<rparr>
   \<and> build \<lparr>data = [(''type'', PStr ''ImageToTextTask''), (''body'', PStr ''R0lGODlh''),
          (''phrase'', PBool True), (''case'', PNone), (''numeric'', PNone), (''math'', PNone),
          (''minLength'', PNone), (''maxLength'', PNone)]\<rparr>
     = [(''type'', PStr ''ImageToTextTask''), (''body'', PStr ''R0lGODlh''), (''phrase'', PBool True)]
   \<and> ''phrase'' \<in> fst ` set (build \<lparr>data = [(''type'', PStr ''ImageToTextTask''), (''body'', PStr ''R0lGODlh''),
          (''phrase'', PBool True), (''case'', PNone), (''numeric'', PNone), (''math'', PNone),
          (''minLength'', PNone), (''maxLength'', PNone)]\<rparr>)
   \<and> ''case'' \<notin> fst ` set (build \<lparr>data = [(''type'', PStr ''ImageToTextTask''), (''body'', PStr ''R0lGODlh''),
          (''phrase'', PBool True), (''case'', PNone), (''numeric'', PNone), (''math'', PNone),
          (''minLength'', PNone), (''maxLength'', PNone)]\<rparr>)"
proof -
  let ?t = "\<lparr>data = [(''type'', PStr ''ImageToTextTask''), (''body'', PStr ''R0lGODlh''),
          (''phrase'', PBool True), (''case'', PNone), (''numeric'', PNone), (''math'', PNone),
          (''minLength'', PNone), (''maxLength'', PNone)]\<rparr>"
  have h: "fst (ImageToTextTask (example_env []) ''http://host/captcha.gif'' (Some True) None None None None None []) = Inr ?t"
    by (rule example_task)
  have d: "distinct (map fst (data ?t))" by simp
  from build_only_supplied [of ?t "''ImageToTextTask''" "example_env []" "''http://host/captcha.gif''" "Some True" None None None None None "[]"]
  show ?thesis using h d by simp
qed

text \<open>
  Claim C4. A falsy value that the caller gives is kept in the payload: \<open>phrase=False\<close>,
  \<open>case=False\<close>, \<open>math=False\<close>, \<open>min_length=0\<close> and \<open>max_length=0\<close> each appear with
  their value, and \<open>numeric=Numeric.NO_REQUIREMENTS\<close> appears as \<open>0\<close>.
\<close>

theorem falsy_values_preserved:
  assumes "fst (ImageToTextTask env url ph cs nu ma mn mx w) = Inr t"
  shows "(ph = Some False \<longrightarrow> map_of (build t) ''phrase'' = Some (PBool False))
       \<and> (cs = Some False \<longrightarrow> map_of (build t) ''case'' = Some (PBool False))
       \<and> (ma = Some False \<longrightarrow> map_of (build t) ''math'' = Some (PBool False))
       \<and> (mn = Some 0 \<longrightarrow> map_of (build t) ''minLength'' = Some (PInt 0))
       \<and> (mx = Some 0 \<longrightarrow> map_of (build t) ''maxLength'' = Some (PInt 0))
       \<and> (nu = Some NO_REQUIREMENTS \<longrightarrow> map_of (build t) ''numeric'' = Some (PInt 0))"
  using ImageToTextTask_lookup [OF assms] by simp

lemma example_task_falsy:
  "fst (ImageToTextTask (example_env r) ''http://host/captcha.gif'' (Some False) (Some False)
      (Some NO_REQUIREMENTS) (Some False) (Some 0) (Some 0) [])
     = Inr \<lparr>data = [(''type'', PStr ''ImageToTextTask''), (''body'', PStr ''R0lGODlh''),
          (''phrase'', PBool False), (''case'', PBool False), (''numeric'', PInt 0),
          (''math'', PBool False), (''minLength'', PInt 0), (''maxLength'', PInt 0)]\<rparr>"
  by (simp add: ImageToTextTask_def example_env_def base64_encode_def Task_init_def
      dict_update_def opt_val_def)

theorem falsy_values_preserved_witness:
  "build \<lparr>data = [(''type'', PStr ''ImageToTextTask''), (''body'', PStr ''R0lGODlh''),
          (''phrase'', PBool False), (''case'', PBool False), (''numeric'', PInt 0),
          (''math'', PBool False), (''minLength'', PInt 0), (''maxLength'', PInt 0)]\<rparr>
     = [(''type'', PStr ''ImageToTextTask''), (''body'', PStr ''R0lGODlh''),
          (''phrase'', PBool False), (''case'', PBool False), (''numeric'', PInt 0),
          (''math'', PBool False), (''minLength'', PInt 0), (''maxLength'', PInt 0)]
   \<and> map_of (build \<lparr>data = [(''type'', PStr ''ImageToTextTask''), (''body'', PStr ''R0lGODlh''),
          (''phrase'', PBool False), (''case'', PBool False), (''numeric'', PInt 0),
          (''math'', PBool False), (''minLength'', PInt 0), (''maxLength'', PInt 0)]\<rparr>) ''phrase''
       = Some (PBool False)
   \<and> map_of (build \<lparr>data = [(''type'', PStr ''ImageToTextTask''), (''body'', PStr ''R0lGODlh''),
          (''phrase'', PBool False), (''case'', PBool False), (''numeric'', PInt 0),
          (''math'', PBool False), (''minLength'', PInt 0), (''maxLength'', PInt 0)]\<rparr>) ''numeric''
       = Some (PInt 0)"
  using falsy_values_preserved [OF example_task_falsy [of "[]"]]
  by (simp add: build_def)

text \<open>
  Claim C9. The payload always has the key \<open>type\<close> with the discriminant given at
  construction: the string passed to \<open>Task\<close>, and \<open>ImageToTextTask\<close> for an image task,
  whatever optional fields are set.
\<close>

theorem build_has_type:
  "map_of (build (Task_init task_type)) ''type'' = Some (PStr task_type)
   \<and> (fst (ImageToTextTask env url ph cs nu ma mn mx w) = Inr t \<longrightarrow>
        map_of (build t) ''type'' = Some (PStr ''ImageToTextTask''))"
  using ImageToTextTask_lookup(1) [of env url ph cs nu ma mn mx w t]
  by (simp add: build_def Task_init_def)

theorem build_has_type_witness:
  "map_of (build \<lparr>data = [(''type'', PStr ''ImageToTextTask''), (''body'', PStr ''R0lGODlh''),
          (''phrase'', PBool True), (''case'', PNone), (''numeric'', PNone), (''math'', PNone),
          (''minLength'', PNone), (''maxLength'', PNone)]\<rparr>) ''type''
     = Some (PStr ''ImageToTextTask'')"
  using build_has_type [of "''ImageToTextTask''" "example_env []" "''http://host/captcha.gif''"
      "Some True" None None None None None "[]"
      "\<lparr>data = [(''type'', PStr ''ImageToTextTask''), (''body'', PStr ''R0lGODlh''),
          (''phrase'', PBool True), (''case'', PNone), (''numeric'', PNone), (''math'', PNone),
          (''minLength'', PNone), (''maxLength'', PNone)]\<rparr>"]
    example_task [of "[]"]
  by (simp only: simp_thms)

section \<open>Properties of the service client\<close>

lemma perform_response:
  assumes run: "perform env c st = (res, st')"
    and log: "sent st' = sent st @ [Post u d]"
  obtains m k where "u = HOST_ADDRESS m"
    and "\<And>env'. perform env' c st = (pbind (fst (request env' m d (sent st))) k, st')"
    and "\<And>r msg. k r \<noteq> Inl (CaptchaException msg)"
proof -
  from perform_shape [of c st] obtain m d0 k where
    sh: "\<And>env'. perform env' c st = (pbind (fst (request env' m d0 (sent st))) k,
           st\<lparr>sent := sent st @ [Post (HOST_ADDRESS m) d0]\<rparr>)"
    and k: "\<And>r msg. k r \<noteq> Inl (CaptchaException msg)" by blast
  from sh [of env] run have st': "st' = st\<lparr>sent := sent st @ [Post (HOST_ADDRESS m) d0]\<rparr>"
    by simp
  with log have "u = HOST_ADDRESS m" "d = d0" by simp_all
  with sh st' k that show thesis by simp
qed

lemma perform_sends_one:
  assumes "perform env c st = (res, st')"
  shows "\<exists>u d. sent st' = sent st @ [Post u d]"
proof -
  from perform_shape [of c st] obtain m d k where
    "perform env c st = (pbind (fst (request env m d (sent st))) k,
           st\<lparr>sent := sent st @ [Post (HOST_ADDRESS m) d]\<rparr>)" by blast
  with assms have "sent st' = sent st @ [Post (HOST_ADDRESS m) d]" by auto
  then show ?thesis by blast
qed

lemma request_positive_raises:
  assumes "requests_post env (HOST_ADDRESS m) d = Inr (PDict r)"
    and "map_of r ''errorId'' = Some e" "py_gt_zero e = Inr True"
  shows "\<exists>x. fst (request env m d w) = Inl x"
  using assms map_of_Some_key [OF assms(2)]
  by (cases "map_of r ''errorCode''"; cases "map_of r ''errorDescription''")
    (simp_all add: request_def)

lemma HOST_ADDRESS_inj: "HOST_ADDRESS m = HOST_ADDRESS m' \<longleftrightarrow> m = m'"
  by (simp add: HOST_ADDRESS_def)

lemma get_queue_stats_unfold:
  "get_queue_stats env q st =
     (fst (request env ''getQueueStats''
        (PDict [(''clientKey'', PStr (client_key (self st))), (''queueId'', PInt (Queue_value q))])
        (sent st)),
      st\<lparr>sent := sent st @ [Post (HOST_ADDRESS ''getQueueStats'')
        (PDict [(''clientKey'', PStr (client_key (self st))), (''queueId'', PInt (Queue_value q))])]\<rparr>)"
  by (simp add: get_queue_stats_def Let_def split_beta request_snd)

lemma get_task_result_unfold:
  "get_task_result env task_id st =
      (pbind (fst (request env ''getTaskResult''
          (PDict [(''clientKey'', PStr (client_key (self st))), (''taskId'', PInt task_id)]) (sent st)))
         (\<lambda>r. pbind (py_getitem r ''status'') (\<lambda>s.
              py_setitem r ''status'' (PBool (s = PStr ''ready'')))),
       st\<lparr>sent := sent st @ [Post (HOST_ADDRESS ''getTaskResult'')
          (PDict [(''clientKey'', PStr (client_key (self st))), (''taskId'', PInt task_id)])]\<rparr>)"
  by (simp add: get_task_result_def Let_def split_beta request_snd)

lemma get_balance_unfold:
  "get_balance env st =
      (pbind (fst (request env ''getBalance''
          (PDict [(''clientKey'', PStr (client_key (self st)))]) (sent st)))
         (\<lambda>r. py_getitem r ''balance''),
       st\<lparr>sent := sent st @ [Post (HOST_ADDRESS ''getBalance'')
          (PDict [(''clientKey'', PStr (client_key (self st)))])]\<rparr>)"
  by (simp add: get_balance_def Let_def split_beta request_snd)

lemma create_task_data:
  "(case soft_id s of None \<Rightarrow>
       (case cb of None \<Rightarrow> [(''clientKey'', ck), (''languagePool'', lp), (''task'', tk)]
        | Some u \<Rightarrow> AList.update ''callbackUrl'' (PStr u)
            [(''clientKey'', ck), (''languagePool'', lp), (''task'', tk)])
     | Some i \<Rightarrow> AList.update ''softId'' (PInt i)
       (case cb of None \<Rightarrow> [(''clientKey'', ck), (''languagePool'', lp), (''task'', tk)]
        | Some u \<Rightarrow> AList.update ''callbackUrl'' (PStr u)
            [(''clientKey'', ck), (''languagePool'', lp), (''task'', tk)]))
   = [(''clientKey'', ck), (''languagePool'', lp), (''task'', tk)]
     @ (case cb of None \<Rightarrow> [] | Some u \<Rightarrow> [(''callbackUrl'', PStr u)])
     @ (case soft_id s of None \<Rightarrow> [] | Some i \<Rightarrow> [(''softId'', PInt i)])"
  by (cases "soft_id s"; cases cb) simp_all

lemma create_task_unfold:
  "create_task env task lang_pool callback_url st =
      (pbind (fst (request env ''createTask''
          (PDict ([(''clientKey'', PStr (client_key (self st))),
             (''languagePool'', PStr (case lang_pool of None \<Rightarrow> ''en'' | Some l \<Rightarrow> LanguagePool_value l)),
             (''task'', PDict (build task))]
            @ (case callback_url of None \<Rightarrow> [] | Some cb \<Rightarrow> [(''callbackUrl'', PStr cb)])
            @ (case soft_id (self st) of None \<Rightarrow> [] | Some i \<Rightarrow> [(''softId'', PInt i)]))) (sent st)))
         (\<lambda>r. py_getitem r ''taskId''),
       st\<lparr>sent := sent st @ [Post (HOST_ADDRESS ''createTask'')
          (PDict ([(''clientKey'', PStr (client_key (self st))),
             (''languagePool'', PStr (case lang_pool of None \<Rightarrow> ''en'' | Some l \<Rightarrow> LanguagePool_value l)),
             (''task'', PDict (build task))]
            @ (case callback_url of None \<Rightarrow> [] | Some cb \<Rightarrow> [(''callbackUrl'', PStr cb)])
            @ (case soft_id (self st) of None \<Rightarrow> [] | Some i \<Rightarrow> [(''softId'', PInt i)])))]\<rparr>)"
proof -
  have lp: "LanguagePool_value (case lang_pool of None \<Rightarrow> ENGLISH | Some l \<Rightarrow> l)
       = (case lang_pool of None \<Rightarrow> ''en'' | Some l \<Rightarrow> LanguagePool_value l)"
    by (cases lang_pool) simp_all
  show ?thesis
    unfolding create_task_def Let_def split_beta request_snd create_task_data lp by (rule refl)
qed

lemma example_post: "requests_post (example_env r) u d = Inr (PDict r)"
  by (simp add: example_env_def)

lemma example_sent: "sent example_state = []"
  by (simp add: example_state_def)

lemma example_client_key: "client_key (self example_state) = ''key''"
  by (simp add: example_state_def AntiCaptchaService_init_def)

lemma example_soft_id: "soft_id (self example_state) = None"
  by (simp add: example_state_def AntiCaptchaService_init_def)

lemma str_int_1: "str_int 1 = ''1''"
  by code_simp

text \<open>
  Claim C2, as amended. For each of the five operations: when the response to the request
  it sent has an \<open>errorId\<close> greater than zero, the operation returns no value but raises;
  and when the response also carries \<open>errorCode\<close> and \<open>errorDescription\<close>, what it raises
  is the \<open>CaptchaException\<close> whose message is \<open>errorId (errorCode): errorDescription\<close>, so
  that the text of each of the three fields occurs in the message. The two further fields
  are needed: the message is formatted from \<open>response['errorCode']\<close> and
  \<open>response['errorDescription']\<close> before the exception exists.
\<close>

theorem positive_errorId_raises:
  assumes run: "perform env c st = (res, st')"
    and log: "sent st' = sent st @ [Post u d]"
    and post: "requests_post env u d = Inr (PDict r)"
    and eid: "map_of r ''errorId'' = Some e" "py_gt_zero e = Inr True"
  shows "(\<exists>x. res = Inl x)
       \<and> (\<forall>ec ed. map_of r ''errorCode'' = Some ec \<and> map_of r ''errorDescription'' = Some ed \<longrightarrow>
            (\<exists>msg. res = Inl (CaptchaException msg)
               \<and> msg = py_str (repr env) e @ '' ('' @ py_str (repr env) ec @ ''): ''
                         @ py_str (repr env) ed
               \<and> sublist (py_str (repr env) e) msg
               \<and> sublist (py_str (repr env) ec) msg
               \<and> sublist (py_str (repr env) ed) msg))"
proof (intro conjI allI impI)
  from perform_response [OF run log] obtain m k where
    u: "u = HOST_ADDRESS m"
    and sh: "perform env c st = (pbind (fst (request env m d (sent st))) k, st')" by metis
  from post u have p: "requests_post env (HOST_ADDRESS m) d = Inr (PDict r)" by simp
  from request_positive_raises [OF p eid] obtain x where
    "fst (request env m d (sent st)) = Inl x" by blast
  with sh run show "\<exists>x. res = Inl x" by simp
  fix ec ed
  assume "map_of r ''errorCode'' = Some ec \<and> map_of r ''errorDescription'' = Some ed"
  then have code: "map_of r ''errorCode'' = Some ec"
    and descr: "map_of r ''errorDescription'' = Some ed" by simp_all
  let ?msg = "py_str (repr env) e @ '' ('' @ py_str (repr env) ec @ ''): '' @ py_str (repr env) ed"
  from request_positive [OF p eid code descr]
  have "fst (request env m d (sent st)) = Inl (CaptchaException ?msg)" .
  with sh run have res: "res = Inl (CaptchaException ?msg)" by simp
  have 1: "sublist (py_str (repr env) e) ?msg"
    using sublist_appendI [of "py_str (repr env) e" "[]"] by simp
  have 2: "sublist (py_str (repr env) ec) ?msg"
    using sublist_appendI [of "py_str (repr env) ec" "py_str (repr env) e @ '' (''"
        "''): '' @ py_str (repr env) ed"]
    by simp
  have 3: "sublist (py_str (repr env) ed) ?msg"
    using sublist_appendI [of "py_str (repr env) ed"
        "py_str (repr env) e @ '' ('' @ py_str (repr env) ec @ ''): ''" "[]"]
    by simp
  from res 1 2 3 show "\<exists>msg. res = Inl (CaptchaException msg)
               \<and> msg = py_str (repr env) e @ '' ('' @ py_str (repr env) ec @ ''): ''
                         @ py_str (repr env) ed
               \<and> sublist (py_str (repr env) e) msg
               \<and> sublist (py_str (repr env) ec) msg
               \<and> sublist (py_str (repr env) ed) msg" by blast
qed

theorem positive_errorId_raises_witness:
  "fst (perform (example_env [(''errorId'', PInt 1), (''errorCode'', PStr ''ERROR_X''),
         (''errorDescription'', PStr ''bad'')]) GetBalance example_state)
     = Inl (CaptchaException ''1 (ERROR_X): bad'')
   \<and> fst (perform (example_env [(''errorId'', PInt 1), (''errorCode'', PStr ''ERROR_X''),
         (''errorDescription'', PStr ''bad'')]) (GetQueueStats RECAPTCHA) example_state)
     = Inl (CaptchaException ''1 (ERROR_X): bad'')
   \<and> fst (perform (example_env [(''errorId'', PInt 1), (''errorCode'', PStr ''ERROR_X''),
         (''errorDescription'', PStr ''bad'')]) (CreateTask (Task_init ''NoCaptchaTask'') None None)
         example_state)
     = Inl (CaptchaException ''1 (ERROR_X): bad'')
   \<and> fst (perform (example_env [(''errorId'', PInt 1), (''errorCode'', PStr ''ERROR_X''),
         (''errorDescription'', PStr ''bad'')]) (GetTaskResult 7) example_state)
     = Inl (CaptchaException ''1 (ERROR_X): bad'')
   \<and> fst (perform (example_env [(''errorId'', PInt 1), (''errorCode'', PStr ''ERROR_X''),
         (''errorDescription'', PStr ''bad'')]) (Report 7) example_state)
     = Inl (CaptchaException ''1 (ERROR_X): bad'')"
proof -
  let ?r = "[(''errorId'', PInt 1), (''errorCode'', PStr ''ERROR_X''),
         (''errorDescription'', PStr ''bad'')]"
  have "fst (perform (example_env ?r) c example_state) = Inl (CaptchaException ''1 (ERROR_X): bad'')"
    for c
  proof -
    obtain res st' where run: "perform (example_env ?r) c example_state = (res, st')"
      by (cases "perform (example_env ?r) c example_state")
    from perform_sends_one [OF run] obtain u d where
      log: "sent st' = sent example_state @ [Post u d]" by blast
    have e1: "map_of ?r ''errorId'' = Some (PInt 1)" and e2: "py_gt_zero (PInt 1) = Inr True"
      by simp_all
    from positive_errorId_raises [OF run log example_post e1 e2]
    have "map_of ?r ''errorCode'' = Some (PStr ''ERROR_X'')
            \<and> map_of ?r ''errorDescription'' = Some (PStr ''bad'') \<longrightarrow>
          (\<exists>msg. res = Inl (CaptchaException msg)
           \<and> msg = py_str (repr (example_env ?r)) (PInt 1) @ '' (''
                @ py_str (repr (example_env ?r)) (PStr ''ERROR_X'') @ ''): ''
                @ py_str (repr (example_env ?r)) (PStr ''bad'')
           \<and> sublist (py_str (repr (example_env ?r)) (PInt 1)) msg
           \<and> sublist (py_str (repr (example_env ?r)) (PStr ''ERROR_X'')) msg
           \<and> sublist (py_str (repr (example_env ?r)) (PStr ''bad'')) msg)"
      by blast
    then show ?thesis using run by (simp add: str_int_1)
  qed
  then show ?thesis by blast
qed

text \<open>
  Without that condition the statement fails. The response \<open>{errorId: 1}\<close> has a positive
  \<open>errorId\<close>, and \<open>get_balance\<close> raises \<open>KeyError\<close> for \<open>errorCode\<close>, not the
  \<open>CaptchaException\<close>; with \<open>errorCode\<close> but no \<open>errorDescription\<close>, \<open>report\<close> raises
  \<open>KeyError\<close> for \<open>errorDescription\<close>.
\<close>

theorem positive_errorId_raises_counterexample:
  "map_of [(''errorId'', PInt 1)] ''errorId'' = Some (PInt 1)
   \<and> py_gt_zero (PInt 1) = Inr True
   \<and> fst (perform (example_env [(''errorId'', PInt 1)]) GetBalance example_state)
       = Inl (KeyError ''errorCode'')
   \<and> fst (perform (example_env [(''errorId'', PInt 1), (''errorCode'', PStr ''ERROR_X'')])
         (Report 7) example_state)
       = Inl (KeyError ''errorDescription'')"
  by (simp add: get_balance_def report_def request_def Let_def split_beta example_post)

text \<open>
  Claim C3. When the response has no \<open>errorId\<close> or \<open>errorId\<close> 0 and carries a status,
  \<open>get_task_result\<close> returns the response mapping with \<open>status\<close> replaced by the truth
  value of "the wire status is the string \<open>ready\<close>" (false for \<open>processing\<close> and for
  everything else), the other fields being those of the response.
\<close>

theorem get_task_result_ready:
  assumes run: "get_task_result env task_id st = (res, st')"
    and log: "sent st' = sent st @ [Post u d]"
    and post: "requests_post env u d = Inr (PDict r)"
    and ok: "''errorId'' \<notin> fst ` set r \<or> map_of r ''errorId'' = Some (PInt 0)"
    and status: "map_of r ''status'' = Some s"
  shows "\<exists>r'. res = Inr (PDict r')
           \<and> map_of r' ''status'' = Some (PBool (s = PStr ''ready''))
           \<and> (\<forall>k. k \<noteq> ''status'' \<and> k \<noteq> ''errorId'' \<longrightarrow> map_of r' k = map_of r k)"
proof -
  let ?d = "PDict [(''clientKey'', PStr (client_key (self st))), (''taskId'', PInt task_id)]"
  have sh: "get_task_result env task_id st =
      (pbind (fst (request env ''getTaskResult'' ?d (sent st))) (\<lambda>r.
            pbind (py_getitem r ''status'') (\<lambda>s.
              py_setitem r ''status'' (PBool (s = PStr ''ready'')))),
       st\<lparr>sent := sent st @ [Post (HOST_ADDRESS ''getTaskResult'') ?d]\<rparr>)"
    by (simp add: get_task_result_def Let_def split_beta request_snd)
  with run log have u: "u = HOST_ADDRESS ''getTaskResult''" and d: "d = ?d" by auto
  from post u d have p: "requests_post env (HOST_ADDRESS ''getTaskResult'') ?d = Inr (PDict r)"
    by simp
  from ok show ?thesis
  proof
    assume "''errorId'' \<notin> fst ` set r"
    from request_absent [OF p this]
    have "fst (request env ''getTaskResult'' ?d (sent st)) = Inr (PDict r)" .
    with sh run status have "res = Inr (PDict (AList.update ''status'' (PBool (s = PStr ''ready'')) r))"
      by simp
    then show ?thesis by (simp add: update_conv')
  next
    assume z: "map_of r ''errorId'' = Some (PInt 0)"
    have "py_gt_zero (PInt 0) = Inr False" by simp
    from request_nonpositive [OF p z this]
    have "fst (request env ''getTaskResult'' ?d (sent st)) = Inr (PDict (AList.delete ''errorId'' r))" .
    with sh run status
    have "res = Inr (PDict (AList.update ''status'' (PBool (s = PStr ''ready''))
                 (AList.delete ''errorId'' r)))"
      by simp
    then show ?thesis by (simp add: update_conv' delete_conv')
  qed
qed

theorem get_task_result_ready_witness:
  "fst (get_task_result (example_env [(''errorId'', PInt 0), (''status'', PStr ''ready''),
          (''cost'', PFloat (Finite 0.0007))]) 7 example_state)
     = Inr (PDict [(''status'', PBool True), (''cost'', PFloat (Finite 0.0007))])
   \<and> fst (get_task_result (example_env [(''status'', PStr ''processing'')]) 7 example_state)
     = Inr (PDict [(''status'', PBool False)])"
proof -
  let ?ra = "[(''errorId'', PInt 0), (''status'', PStr ''ready''), (''cost'', PFloat (Finite 0.0007))]"
  let ?rb = "[(''status'', PStr ''processing'')]"
  let ?d = "PDict [(''clientKey'', PStr ''key''), (''taskId'', PInt 7)]"
  let ?st = "example_state\<lparr>sent := [Post (HOST_ADDRESS ''getTaskResult'') ?d]\<rparr>"
  have run1: "get_task_result (example_env ?ra) 7 example_state
     = (Inr (PDict [(''status'', PBool True), (''cost'', PFloat (Finite 0.0007))]), ?st)"
    by (simp add: get_task_result_unfold request_def example_post example_sent example_client_key)
  have run2: "get_task_result (example_env ?rb) 7 example_state
     = (Inr (PDict [(''status'', PBool False)]), ?st)"
    by (simp add: get_task_result_unfold request_def example_post example_sent example_client_key)
  have log: "sent ?st = sent example_state @ [Post (HOST_ADDRESS ''getTaskResult'') ?d]"
    by (simp add: example_sent)
  have ok1: "''errorId'' \<notin> fst ` set ?ra \<or> map_of ?ra ''errorId'' = Some (PInt 0)" by simp
  have ok2: "''errorId'' \<notin> fst ` set ?rb \<or> map_of ?rb ''errorId'' = Some (PInt 0)" by simp
  have s1: "map_of ?ra ''status'' = Some (PStr ''ready'')" by simp
  have s2: "map_of ?rb ''status'' = Some (PStr ''processing'')" by simp
  note 1 = get_task_result_ready [OF run1 log example_post ok1 s1]
  note 2 = get_task_result_ready [OF run2 log example_post ok2 s2]
  from 1 2 run1 run2 show ?thesis by simp
qed

text \<open>
  Claim C5. When \<open>errorId\<close> is 0 the key is removed before anything else looks at the
  response: the request protocol yields the response without it, the operation behaves
  as on the response that never had the key, and the mappings that \<open>get_queue_stats\<close> and
  \<open>get_task_result\<close> return have no \<open>errorId\<close> key. When \<open>errorId\<close> is absent the response
  is used as it is. For the response \<open>{errorId: 0, balance: 12.5}\<close>, \<open>get_balance\<close> returns
  \<open>12.5\<close>.
\<close>

theorem zero_errorId_stripped:
  assumes run: "perform env c st = (res, st')"
    and log: "sent st' = sent st @ [Post u d]"
    and post: "requests_post env u d = Inr (PDict r)"
  shows "(map_of r ''errorId'' = Some (PInt 0) \<longrightarrow>
            (\<forall>m. u = HOST_ADDRESS m \<longrightarrow>
               fst (request env m d (sent st)) = Inr (PDict (AList.delete ''errorId'' r)))
          \<and> ''errorId'' \<notin> fst ` set (AList.delete ''errorId'' r)
          \<and> (\<forall>env0. requests_post env0 u d = Inr (PDict (AList.delete ''errorId'' r)) \<longrightarrow>
               perform env0 c st = (res, st'))
          \<and> (\<forall>q r'. c = GetQueueStats q \<and> res = Inr (PDict r') \<longrightarrow> ''errorId'' \<notin> fst ` set r')
          \<and> (\<forall>i r'. c = GetTaskResult i \<and> res = Inr (PDict r') \<longrightarrow> ''errorId'' \<notin> fst ` set r'))
       \<and> (''errorId'' \<notin> fst ` set r \<longrightarrow>
            (\<forall>m. u = HOST_ADDRESS m \<longrightarrow> fst (request env m d (sent st)) = Inr (PDict r)))
       \<and> (c = GetBalance \<and> r = [(''errorId'', PInt 0), (''balance'', PFloat (Finite 12.5))] \<longrightarrow>
            res = Inr (PFloat (Finite 12.5)))"
proof -
  from perform_response [OF run log] obtain m k where
    u: "u = HOST_ADDRESS m"
    and sh: "\<And>env'. perform env' c st = (pbind (fst (request env' m d (sent st))) k, st')"
    by metis
  from post u have p: "requests_post env (HOST_ADDRESS m) d = Inr (PDict r)" by simp
  have zero: "(\<forall>m. u = HOST_ADDRESS m \<longrightarrow>
               fst (request env m d (sent st)) = Inr (PDict (AList.delete ''errorId'' r)))
          \<and> ''errorId'' \<notin> fst ` set (AList.delete ''errorId'' r)
          \<and> (\<forall>env0. requests_post env0 u d = Inr (PDict (AList.delete ''errorId'' r)) \<longrightarrow>
               perform env0 c st = (res, st'))
          \<and> (\<forall>q r'. c = GetQueueStats q \<and> res = Inr (PDict r') \<longrightarrow> ''errorId'' \<notin> fst ` set r')
          \<and> (\<forall>i r'. c = GetTaskResult i \<and> res = Inr (PDict r') \<longrightarrow> ''errorId'' \<notin> fst ` set r')"
    if z: "map_of r ''errorId'' = Some (PInt 0)"
  proof -
    have "py_gt_zero (PInt 0) = Inr False" by simp
    from request_nonpositive [OF p z this]
    have rq: "fst (request env m d (sent st)) = Inr (PDict (AList.delete ''errorId'' r))" .
    have a: "\<forall>m'. u = HOST_ADDRESS m' \<longrightarrow>
               fst (request env m' d (sent st)) = Inr (PDict (AList.delete ''errorId'' r))"
      using rq u by (simp add: HOST_ADDRESS_inj)
    have b: "''errorId'' \<notin> fst ` set (AList.delete ''errorId'' r)"
      by (rule delete_notin_dom)
    have c: "\<forall>env0. requests_post env0 u d = Inr (PDict (AList.delete ''errorId'' r)) \<longrightarrow>
               perform env0 c st = (res, st')"
    proof (intro allI impI)
      fix env0 :: pyenv
      assume "requests_post env0 u d = Inr (PDict (AList.delete ''errorId'' r))"
      with u have "requests_post env0 (HOST_ADDRESS m) d = Inr (PDict (AList.delete ''errorId'' r))"
        by simp
      from request_absent [OF this b]
      have "fst (request env0 m d (sent st)) = Inr (PDict (AList.delete ''errorId'' r))" .
      with rq sh [of env0] sh [of env] run show "perform env0 c st = (res, st')" by simp
    qed
    have d: "\<forall>q r'. c = GetQueueStats q \<and> res = Inr (PDict r') \<longrightarrow> ''errorId'' \<notin> fst ` set r'"
    proof (intro allI impI)
      fix q r' assume h: "c = GetQueueStats q \<and> res = Inr (PDict r')"
      with run log have "u = HOST_ADDRESS ''getQueueStats''"
        by (auto simp: get_queue_stats_unfold)
      with u have "m = ''getQueueStats''" by (simp add: HOST_ADDRESS_inj)
      with h run log rq have "r' = AList.delete ''errorId'' r"
        by (auto simp: get_queue_stats_unfold)
      with b show "''errorId'' \<notin> fst ` set r'" by simp
    qed
    have e: "\<forall>i r'. c = GetTaskResult i \<and> res = Inr (PDict r') \<longrightarrow> ''errorId'' \<notin> fst ` set r'"
    proof (intro allI impI)
      fix i r' assume h: "c = GetTaskResult i \<and> res = Inr (PDict r')"
      with run log have "u = HOST_ADDRESS ''getTaskResult''"
        by (auto simp: get_task_result_unfold)
      with u have "m = ''getTaskResult''" by (simp add: HOST_ADDRESS_inj)
      with h run log rq have "Inr (PDict r') =
         pbind (py_getitem (PDict (AList.delete ''errorId'' r)) ''status'') (\<lambda>s.
              py_setitem (PDict (AList.delete ''errorId'' r)) ''status'' (PBool (s = PStr ''ready'')))"
        by (auto simp: get_task_result_unfold)
      then have "\<exists>x. r' = AList.update ''status'' x (AList.delete ''errorId'' r)"
        by (auto split: option.splits)
      then obtain x where "r' = AList.update ''status'' x (AList.delete ''errorId'' r)" by blast
      then have "fst ` set r' = {''status''} \<union> fst ` set (AList.delete ''errorId'' r)"
        by (simp only: dom_update)
      then show "''errorId'' \<notin> fst ` set r'" using b by simp
    qed
    from a b c d e show ?thesis by blast
  qed
  have absent: "\<forall>m. u = HOST_ADDRESS m \<longrightarrow> fst (request env m d (sent st)) = Inr (PDict r)"
    if "''errorId'' \<notin> fst ` set r"
    using request_absent [OF p that] u by (simp add: HOST_ADDRESS_inj)
  have bal: "res = Inr (PFloat (Finite 12.5))"
    if h: "c = GetBalance \<and> r = [(''errorId'', PInt 0), (''balance'', PFloat (Finite 12.5))]"
  proof -
    from h run log have "u = HOST_ADDRESS ''getBalance''" by (auto simp: get_balance_unfold)
    with u have m: "m = ''getBalance''" by (simp add: HOST_ADDRESS_inj)
    from h have z: "map_of r ''errorId'' = Some (PInt 0)" by simp
    have "py_gt_zero (PInt 0) = Inr False" by simp
    from request_nonpositive [OF p z this] m h run log show ?thesis
      by (auto simp: get_balance_unfold)
  qed
  from zero absent bal show ?thesis by blast
qed

theorem zero_errorId_stripped_witness:
  "fst (perform (example_env [(''errorId'', PInt 0), (''balance'', PFloat (Finite 12.5))])
         GetBalance example_state) = Inr (PFloat (Finite 12.5))
   \<and> ''errorId'' \<notin> fst ` set (AList.delete ''errorId''
         [(''errorId'', PInt 0), (''balance'', PFloat (Finite 12.5))])"
proof -
  let ?r = "[(''errorId'', PInt 0), (''balance'', PFloat (Finite 12.5))]"
  obtain res st' where run: "perform (example_env ?r) GetBalance example_state = (res, st')"
    by (cases "perform (example_env ?r) GetBalance example_state")
  from perform_sends_one [OF run] obtain u d where
    log: "sent st' = sent example_state @ [Post u d]" by blast
  have z: "map_of ?r ''errorId'' = Some (PInt 0)" by simp
  from zero_errorId_stripped [OF run log example_post] z run show ?thesis by simp
qed

text \<open>
  Claim C6. On a response that reports no error, \<open>report\<close> returns true if and only if
  the status of the response is the string \<open>success\<close>, and false for any other status.
\<close>

theorem report_success:
  assumes run: "report env task_id st = (res, st')"
    and log: "sent st' = sent st @ [Post u d]"
    and post: "requests_post env u d = Inr (PDict r)"
    and ok: "''errorId'' \<notin> fst ` set r \<or> (\<exists>e. map_of r ''errorId'' = Some e \<and> py_gt_zero e = Inr False)"
    and status: "map_of r ''status'' = Some s"
  shows "res = Inr (PBool (s = PStr ''success''))"
proof -
  let ?d = "PDict [(''clientKey'', PStr (client_key (self st))), (''taskId'', PInt task_id)]"
  have sh: "report env task_id st =
      (pbind (fst (request env ''reportIncorrectImageCaptcha'' ?d (sent st))) (\<lambda>r.
            pbind (py_getitem r ''status'') (\<lambda>s. Inr (PBool (s = PStr ''success'')))),
       st\<lparr>sent := sent st @ [Post (HOST_ADDRESS ''reportIncorrectImageCaptcha'') ?d]\<rparr>)"
    by (simp add: report_def Let_def split_beta request_snd)
  with run log have u: "u = HOST_ADDRESS ''reportIncorrectImageCaptcha''" and d: "d = ?d" by auto
  from post u d
  have p: "requests_post env (HOST_ADDRESS ''reportIncorrectImageCaptcha'') ?d = Inr (PDict r)"
    by simp
  from ok show ?thesis
  proof
    assume "''errorId'' \<notin> fst ` set r"
    from request_absent [OF p this]
    have "fst (request env ''reportIncorrectImageCaptcha'' ?d (sent st)) = Inr (PDict r)" .
    with sh run status show ?thesis by simp
  next
    assume "\<exists>e. map_of r ''errorId'' = Some e \<and> py_gt_zero e = Inr False"
    then obtain e where z: "map_of r ''errorId'' = Some e" and n: "py_gt_zero e = Inr False"
      by blast
    from request_nonpositive [OF p z n]
    have "fst (request env ''reportIncorrectImageCaptcha'' ?d (sent st))
            = Inr (PDict (AList.delete ''errorId'' r))" .
    with sh run status show ?thesis by simp
  qed
qed

theorem report_success_witness:
  "fst (report (example_env [(''errorId'', PInt 0), (''status'', PStr ''success'')]) 7 example_state)
     = Inr (PBool True)
   \<and> fst (report (example_env [(''status'', PStr ''failed'')]) 7 example_state)
     = Inr (PBool False)"
proof -
  let ?ra = "[(''errorId'', PInt 0), (''status'', PStr ''success'')]"
  let ?rb = "[(''status'', PStr ''failed'')]"
  have a: "fst (report (example_env ?ra) 7 example_state) = Inr (PBool (PStr ''success'' = PStr ''success''))"
  proof -
    obtain res st' where run: "report (example_env ?ra) 7 example_state = (res, st')"
      by (cases "report (example_env ?ra) 7 example_state")
    then have "perform (example_env ?ra) (Report 7) example_state = (res, st')" by simp
    from perform_sends_one [OF this] obtain u d where
      log: "sent st' = sent example_state @ [Post u d]" by blast
    have "res = Inr (PBool (PStr ''success'' = PStr ''success''))"
      by (rule report_success [OF run log example_post]) simp_all
    with run show ?thesis by simp
  qed
  have b: "fst (report (example_env ?rb) 7 example_state) = Inr (PBool (PStr ''failed'' = PStr ''success''))"
  proof -
    obtain res st' where run: "report (example_env ?rb) 7 example_state = (res, st')"
      by (cases "report (example_env ?rb) 7 example_state")
    then have "perform (example_env ?rb) (Report 7) example_state = (res, st')" by simp
    from perform_sends_one [OF this] obtain u d where
      log: "sent st' = sent example_state @ [Post u d]" by blast
    have "res = Inr (PBool (PStr ''failed'' = PStr ''success''))"
      by (rule report_success [OF run log example_post]) simp_all
    with run show ?thesis by simp
  qed
  from a b show ?thesis by simp
qed

text \<open>
  Claim C7. \<open>create_task\<close> sends exactly one request, to \<open>createTask\<close>, with the body
  \<open>{clientKey, languagePool, task: task.build()}\<close>, where \<open>languagePool\<close> is \<open>en\<close> when
  the caller names no pool; \<open>callbackUrl\<close> is in the body exactly when a callback address
  was given and \<open>softId\<close> exactly when the client has one. When the response reports no
  error and has a \<open>taskId\<close>, that value is returned.
\<close>

theorem create_task_request:
  assumes run: "create_task env task lang_pool callback_url st = (res, st')"
  shows "sent st' = sent st @ [Post ''https://api.anti-captcha.com/createTask''
          (PDict ([(''clientKey'', PStr (client_key (self st))),
             (''languagePool'', PStr (case lang_pool of None \<Rightarrow> ''en'' | Some l \<Rightarrow> LanguagePool_value l)),
             (''task'', PDict (build task))]
            @ (case callback_url of None \<Rightarrow> [] | Some cb \<Rightarrow> [(''callbackUrl'', PStr cb)])
            @ (case soft_id (self st) of None \<Rightarrow> [] | Some i \<Rightarrow> [(''softId'', PInt i)])))]
       \<and> (\<forall>u d r task_id. sent st' = sent st @ [Post u d]
            \<and> requests_post env u d = Inr (PDict r)
            \<and> (''errorId'' \<notin> fst ` set r \<or> (\<exists>e. map_of r ''errorId'' = Some e \<and> py_gt_zero e = Inr False))
            \<and> map_of r ''taskId'' = Some task_id
            \<longrightarrow> res = Inr task_id)"
proof (intro conjI allI impI)
  let ?d = "PDict ([(''clientKey'', PStr (client_key (self st))),
             (''languagePool'', PStr (case lang_pool of None \<Rightarrow> ''en'' | Some l \<Rightarrow> LanguagePool_value l)),
             (''task'', PDict (build task))]
            @ (case callback_url of None \<Rightarrow> [] | Some cb \<Rightarrow> [(''callbackUrl'', PStr cb)])
            @ (case soft_id (self st) of None \<Rightarrow> [] | Some i \<Rightarrow> [(''softId'', PInt i)]))"
  note sh = create_task_unfold [of env task lang_pool callback_url st]
  from sh run have st': "st' = st\<lparr>sent := sent st @ [Post (HOST_ADDRESS ''createTask'') ?d]\<rparr>"
    by simp
  then show "sent st' = sent st @ [Post ''https://api.anti-captcha.com/createTask'' ?d]"
    by (simp add: HOST_ADDRESS_def)
  fix u d r task_id
  assume a: "sent st' = sent st @ [Post u d]
            \<and> requests_post env u d = Inr (PDict r)
            \<and> (''errorId'' \<notin> fst ` set r \<or> (\<exists>e. map_of r ''errorId'' = Some e \<and> py_gt_zero e = Inr False))
            \<and> map_of r ''taskId'' = Some task_id"
  with st' have u: "u = HOST_ADDRESS ''createTask''" and d: "d = ?d" by simp_all
  with a have p: "requests_post env (HOST_ADDRESS ''createTask'') ?d = Inr (PDict r)" by simp
  from a have tid: "map_of r ''taskId'' = Some task_id" by simp
  from a have "''errorId'' \<notin> fst ` set r \<or> (\<exists>e. map_of r ''errorId'' = Some e \<and> py_gt_zero e = Inr False)"
    by simp
  then show "res = Inr task_id"
  proof
    assume "''errorId'' \<notin> fst ` set r"
    from request_absent [OF p this] sh run tid show ?thesis by simp
  next
    assume "\<exists>e. map_of r ''errorId'' = Some e \<and> py_gt_zero e = Inr False"
    then obtain e where z: "map_of r ''errorId'' = Some e" and n: "py_gt_zero e = Inr False"
      by blast
    from request_nonpositive [OF p z n] sh run tid show ?thesis by simp
  qed
qed

theorem create_task_request_witness:
  "create_task (example_env [(''errorId'', PInt 0), (''taskId'', PInt 42)])
      (Task_init ''NoCaptchaTaskProxyless'') None None example_state
    = (Inr (PInt 42),
       example_state\<lparr>sent := [Post ''https://api.anti-captcha.com/createTask''
         (PDict [(''clientKey'', PStr ''key''), (''languagePool'', PStr ''en''),
                 (''task'', PDict [(''type'', PStr ''NoCaptchaTaskProxyless'')])])]\<rparr>)
   \<and> sent (snd (create_task (example_env [(''taskId'', PInt 43)])
      (Task_init ''NoCaptchaTaskProxyless'') (Some RUSSIAN) (Some ''http://cb'')
      \<lparr>self = AntiCaptchaService_init ''key'' (Some 802), sent = []\<rparr>))
    = [Post ''https://api.anti-captcha.com/createTask''
         (PDict [(''clientKey'', PStr ''key''), (''languagePool'', PStr ''rn''),
                 (''task'', PDict [(''type'', PStr ''NoCaptchaTaskProxyless'')]),
                 (''callbackUrl'', PStr ''http://cb''), (''softId'', PInt 802)])]"
proof -
  let ?r = "[(''errorId'', PInt 0), (''taskId'', PInt 42)]"
  let ?t = "Task_init ''NoCaptchaTaskProxyless''"
  let ?sb = "\<lparr>self = AntiCaptchaService_init ''key'' (Some 802), sent = []\<rparr>"
  have b: "build ?t = [(''type'', PStr ''NoCaptchaTaskProxyless'')]"
    by (simp add: build_def Task_init_def)
  obtain res st' where run: "create_task (example_env ?r) ?t None None example_state = (res, st')"
    by (cases "create_task (example_env ?r) ?t None None example_state")
  obtain res2 st2 where run2: "create_task (example_env [(''taskId'', PInt 43)]) ?t (Some RUSSIAN)
      (Some ''http://cb'') ?sb = (res2, st2)"
    by (cases "create_task (example_env [(''taskId'', PInt 43)]) ?t (Some RUSSIAN)
      (Some ''http://cb'') ?sb")
  note c1 = create_task_request [OF run]
  note c2 = create_task_request [OF run2]
  from c1 have s1: "sent st' = [Post ''https://api.anti-captcha.com/createTask''
         (PDict [(''clientKey'', PStr ''key''), (''languagePool'', PStr ''en''),
                 (''task'', PDict [(''type'', PStr ''NoCaptchaTaskProxyless'')])])]"
    by (simp add: b example_sent example_client_key example_soft_id)
  have "self st' = self example_state"
    using run by (auto simp: create_task_unfold)
  with s1 have st': "st' = example_state\<lparr>sent := [Post ''https://api.anti-captcha.com/createTask''
         (PDict [(''clientKey'', PStr ''key''), (''languagePool'', PStr ''en''),
                 (''task'', PDict [(''type'', PStr ''NoCaptchaTaskProxyless'')])])]\<rparr>"
    by simp
  from c1 have "sent st' = sent example_state @ [Post ''https://api.anti-captcha.com/createTask''
         (PDict [(''clientKey'', PStr ''key''), (''languagePool'', PStr ''en''),
                 (''task'', PDict [(''type'', PStr ''NoCaptchaTaskProxyless'')])])]
      \<and> requests_post (example_env ?r) ''https://api.anti-captcha.com/createTask''
         (PDict [(''clientKey'', PStr ''key''), (''languagePool'', PStr ''en''),
                 (''task'', PDict [(''type'', PStr ''NoCaptchaTaskProxyless'')])]) = Inr (PDict ?r)
      \<and> (''errorId'' \<notin> fst ` set ?r \<or> (\<exists>e. map_of ?r ''errorId'' = Some e \<and> py_gt_zero e = Inr False))
      \<and> map_of ?r ''taskId'' = Some (PInt 42) \<longrightarrow> res = Inr (PInt 42)"
    by blast
  with s1 have res: "res = Inr (PInt 42)" by (simp add: example_post example_sent)
  from c2 have s2: "sent st2 = [Post ''https://api.anti-captcha.com/createTask''
         (PDict [(''clientKey'', PStr ''key''), (''languagePool'', PStr ''rn''),
                 (''task'', PDict [(''type'', PStr ''NoCaptchaTaskProxyless'')]),
                 (''callbackUrl'', PStr ''http://cb''), (''softId'', PInt 802)])]"
    by (simp add: b AntiCaptchaService_init_def)
  from run run2 res st' s2 show ?thesis by simp
qed

text \<open>
  Claim C8. No operation changes the instance: after \<open>get_balance\<close>, \<open>get_queue_stats\<close>,
  \<open>create_task\<close>, \<open>get_task_result\<close> or \<open>report\<close>, whether it returned or raised,
  \<open>client_key\<close> and \<open>soft_id\<close> are what they were before.
\<close>

theorem instance_state_unchanged:
  "self (snd (perform env c st)) = self st
   \<and> client_key (self (snd (perform env c st))) = client_key (self st)
   \<and> soft_id (self (snd (perform env c st))) = soft_id (self st)"
proof -
  from perform_shape [of c st] obtain m d k where
    "perform env c st = (pbind (fst (request env m d (sent st))) k,
           st\<lparr>sent := sent st @ [Post (HOST_ADDRESS m) d]\<rparr>)" by blast
  then show ?thesis by simp
qed

theorem instance_state_unchanged_witness:
  "client_key (self (snd (perform (example_env []) (GetTaskResult 7) example_state))) = ''key''
   \<and> soft_id (self (snd (perform (example_env []) (GetTaskResult 7) example_state))) = None"
  using instance_state_unchanged [of "example_env []" "GetTaskResult 7" example_state]
  by (simp add: example_client_key example_soft_id)

text \<open>
  Claim C10. A response whose \<open>errorId\<close> is negative is handled like one whose \<open>errorId\<close>
  is 0: no \<open>CaptchaException\<close> is raised, the request protocol hands on the response
  without the \<open>errorId\<close> key, and the operation ends with the result and the effects it
  has when the server answers the same mapping with \<open>errorId\<close> 0.
\<close>

theorem negative_errorId_like_zero:
  assumes run: "perform env c st = (res, st')"
    and log: "sent st' = sent st @ [Post u d]"
    and post: "requests_post env u d = Inr (PDict r)"
    and neg: "map_of r ''errorId'' = Some (PInt n)" "n < 0"
  shows "(\<forall>msg. res \<noteq> Inl (CaptchaException msg))
       \<and> (\<forall>m. u = HOST_ADDRESS m \<longrightarrow>
             fst (request env m d (sent st)) = Inr (PDict (AList.delete ''errorId'' r)))
       \<and> (\<forall>env0. requests_post env0 u d = Inr (PDict (AList.update ''errorId'' (PInt 0) r)) \<longrightarrow>
             perform env0 c st = (res, st'))"
proof -
  from perform_response [OF run log] obtain m k where
    u: "u = HOST_ADDRESS m"
    and sh: "\<And>env'. perform env' c st = (pbind (fst (request env' m d (sent st))) k, st')"
    and k: "\<And>r msg. k r \<noteq> Inl (CaptchaException msg)" by metis
  from post u have p: "requests_post env (HOST_ADDRESS m) d = Inr (PDict r)" by simp
  from neg have "py_gt_zero (PInt n) = Inr False" by simp
  from request_nonpositive [OF p neg(1) this]
  have rq: "fst (request env m d (sent st)) = Inr (PDict (AList.delete ''errorId'' r))" .
  with sh [of env] run have res: "res = k (PDict (AList.delete ''errorId'' r))" by simp
  have 1: "\<forall>msg. res \<noteq> Inl (CaptchaException msg)" using res k by simp
  have 2: "\<forall>m'. u = HOST_ADDRESS m' \<longrightarrow>
             fst (request env m' d (sent st)) = Inr (PDict (AList.delete ''errorId'' r))"
    using rq u by (simp add: HOST_ADDRESS_inj)
  have 3: "\<forall>env0. requests_post env0 u d = Inr (PDict (AList.update ''errorId'' (PInt 0) r)) \<longrightarrow>
             perform env0 c st = (res, st')"
  proof (intro allI impI)
    fix env0 :: pyenv
    assume "requests_post env0 u d = Inr (PDict (AList.update ''errorId'' (PInt 0) r))"
    with u have p0: "requests_post env0 (HOST_ADDRESS m) d
        = Inr (PDict (AList.update ''errorId'' (PInt 0) r))" by simp
    have z: "map_of (AList.update ''errorId'' (PInt 0) r) ''errorId'' = Some (PInt 0)"
      by (simp add: update_conv')
    have "py_gt_zero (PInt 0) = Inr False" by simp
    from request_nonpositive [OF p0 z this]
    have "fst (request env0 m d (sent st)) = Inr (PDict (AList.delete ''errorId'' r))"
      by (simp add: delete_update_same)
    with sh [of env0] res show "perform env0 c st = (res, st')" by simp
  qed
  from 1 2 3 show ?thesis by blast
qed

theorem negative_errorId_like_zero_witness:
  "perform (example_env [(''errorId'', PInt (- 1)), (''balance'', PFloat (Finite 12.5))])
         GetBalance example_state
     = perform (example_env [(''errorId'', PInt 0), (''balance'', PFloat (Finite 12.5))])
         GetBalance example_state
   \<and> fst (request (example_env [(''errorId'', PInt (- 1)), (''balance'', PFloat (Finite 12.5))])
         ''getBalance'' (PDict [(''clientKey'', PStr ''key'')]) [])
     = Inr (PDict [(''balance'', PFloat (Finite 12.5))])"
proof -
  let ?r = "[(''errorId'', PInt (- 1)), (''balance'', PFloat (Finite 12.5))]"
  let ?rz = "[(''errorId'', PInt 0), (''balance'', PFloat (Finite 12.5))]"
  let ?d = "PDict [(''clientKey'', PStr ''key'')]"
  let ?res = "Inr (PFloat (Finite 12.5)) :: result"
  let ?st' = "example_state\<lparr>sent := [Post (HOST_ADDRESS ''getBalance'') ?d]\<rparr>"
  have run: "perform (example_env ?r) GetBalance example_state = (?res, ?st')"
    by (simp add: get_balance_unfold request_def example_post example_sent example_client_key)
  have log: "sent ?st' = sent example_state @ [Post (HOST_ADDRESS ''getBalance'') ?d]"
    by (simp add: example_sent)
  have n1: "map_of ?r ''errorId'' = Some (PInt (- 1))" by simp
  have n2: "(- 1 :: int) < 0" by simp
  note n = n1 n2
  have u: "AList.update ''errorId'' (PInt 0) ?r = ?rz" by simp
  from negative_errorId_like_zero [OF run log example_post n]
  have "(\<forall>m. HOST_ADDRESS ''getBalance'' = HOST_ADDRESS m \<longrightarrow>
             fst (request (example_env ?r) m ?d (sent example_state))
               = Inr (PDict (AList.delete ''errorId'' ?r)))
       \<and> (\<forall>env0. requests_post env0 (HOST_ADDRESS ''getBalance'') ?d
                = Inr (PDict (AList.update ''errorId'' (PInt 0) ?r)) \<longrightarrow>
             perform env0 GetBalance example_state = (?res, ?st'))" by blast
  then have "fst (request (example_env ?r) ''getBalance'' ?d (sent example_state))
               = Inr (PDict (AList.delete ''errorId'' ?r))"
    and "perform (example_env ?rz) GetBalance example_state = (?res, ?st')"
    by (simp_all add: example_post)
  with run show ?thesis by (simp add: example_sent)
qed

end
